theory Spec2Isabelle
  imports Complex_Main
begin

section \<open>Data model (types/index.ts)\<close>

text \<open>
  A JavaScript number is a binary64 double; the model holds its value as a real, and
  the inputs are finite doubles (no NaN, no Infinity). In the keystroke analyzer and
  in the stylometry verdict every arithmetic operation is rounded as the double
  operation is (section on binary64 below), so a sum such as \<open>0.1 + 0.2\<close> falls on the
  side of \<open>0.3\<close> where the code's falls. The aggregates and the fusion sum of the fraud
  service are computed exactly. A JavaScript \<open>Map\<close> that is only read by key is
  a partial function; a \<open>Map\<close> whose iteration order is observed is an association
  list in insertion order. An array that the code sorts or extends in place is
  returned by the model and written back by the caller that holds the alias.
\<close>

datatype KeyAction = Down | Up

record KeystrokeEvent =
  ke_sessionId :: string
  ke_t :: real
  ke_key :: string
  ke_action :: KeyAction

record KeystrokeDigraph =
  dg_sessionId :: string
  dg_key1 :: string
  dg_key2 :: string
  dg_latency :: real
  dg_timestamp :: real

record KeystrokeTrigraph =
  tg_sessionId :: string
  tg_key1 :: string
  tg_key2 :: string
  tg_key3 :: string
  tg_latency1 :: real
  tg_latency2 :: real
  tg_timestamp :: real

record TypingProfile =
  tp_sessionId :: string
  averageSpeed :: real
  digraphLatencies :: "(string \<times> real) list"
  trigraphLatencies :: "(string \<times> real) list"
  keyHoldDurations :: "(string \<times> real) list"
  pauseDistribution :: "real list"
  variance :: real

text \<open>The result object of both anomaly detectors.\<close>

record Anomalies =
  isSuspicious :: bool
  anomalies :: "string list"
  confidence :: real

text \<open>\<open>m.get(k) || []\<close>: an array is always truthy, so only a missing key gives \<open>[]\<close>.\<close>

definition orEmpty :: "'a list option \<Rightarrow> 'a list" where
  "orEmpty m = (case m of None \<Rightarrow> [] | Some xs \<Rightarrow> xs)"

section \<open>Binary64 arithmetic\<close>

text \<open>
  The binade of a non-zero magnitude: \<open>upSearch\<close> halves a magnitude of at least 1 until
  it is below 2, \<open>downSearch\<close> doubles a magnitude below 1 until it reaches 1. The
  bounds 1023 and 1022 are the largest and the smallest exponent of a normal double:
  below \<open>2 ^ -1022\<close> the exponent stays at \<open>-1022\<close>, which gives the subnormals their
  fixed spacing. Magnitudes of \<open>2 ^ 1024\<close> and more (Infinity in the code) are outside
  the model.
\<close>

fun upSearch :: "nat \<Rightarrow> real \<Rightarrow> nat" where
  "upSearch 0 x = 0"
| "upSearch (Suc n) x = (if x < 2 then 0 else Suc (upSearch n (x / 2)))"

fun downSearch :: "nat \<Rightarrow> real \<Rightarrow> nat" where
  "downSearch 0 x = 0"
| "downSearch (Suc n) x = (if 1 \<le> x then 0 else Suc (downSearch n (x * 2)))"

definition exponentOf :: "real \<Rightarrow> int" where
  "exponentOf x =
     (if 1 \<le> \<bar>x\<bar> then int (upSearch 1023 \<bar>x\<bar>) else - int (downSearch 1022 \<bar>x\<bar>))"

definition pow2 :: "int \<Rightarrow> real" where
  "pow2 e = (if 0 \<le> e then 2 ^ nat e else 1 / 2 ^ nat (- e))"

text \<open>Rounding to the nearest integer, a tie going to the even neighbour.\<close>

definition roundHalfEven :: "real \<Rightarrow> int" where
  "roundHalfEven x =
     (if x - of_int \<lfloor>x\<rfloor> < 1 / 2 then \<lfloor>x\<rfloor>
      else if 1 / 2 < x - of_int \<lfloor>x\<rfloor> then \<lfloor>x\<rfloor> + 1
      else if even \<lfloor>x\<rfloor> then \<lfloor>x\<rfloor> else \<lfloor>x\<rfloor> + 1)"

text \<open>
  The double nearest to a real: a multiple of the spacing \<open>2 ^ (e - 52)\<close> of its binade
  (53 significant bits). It is the value of a decimal literal (\<open>0.3\<close> is
  \<open>toDouble (3 / 10)\<close>), and each arithmetic operation of the code returns the nearest
  double of the exact result on its double operands. \<open>Math.pow(x, 2)\<close> is taken as
  \<open>x * x\<close>.
\<close>

definition toDouble :: "real \<Rightarrow> real" where
  "toDouble x =
     (if x = 0 then 0
      else of_int (roundHalfEven (x / pow2 (exponentOf x - 52))) * pow2 (exponentOf x - 52))"

definition dadd :: "real \<Rightarrow> real \<Rightarrow> real" where
  "dadd a b = toDouble (a + b)"

definition dsub :: "real \<Rightarrow> real \<Rightarrow> real" where
  "dsub a b = toDouble (a - b)"

definition dmul :: "real \<Rightarrow> real \<Rightarrow> real" where
  "dmul a b = toDouble (a * b)"

definition ddiv :: "real \<Rightarrow> real \<Rightarrow> real" where
  "ddiv a b = toDouble (a / b)"

text \<open>\<open>xs.reduce((sum, x) => sum + x, 0)\<close>, and a running \<open>confidence += c\<close>.\<close>

definition doubleSum :: "real list \<Rightarrow> real" where
  "doubleSum xs = foldl dadd 0 xs"

section \<open>KeystrokeAnalyzer (services/keystrokeAnalyzer.ts)\<close>

record KeystrokeAnalyzer =
  ka_keystrokeEvents :: "string \<rightharpoonup> KeystrokeEvent list"
  ka_digraphs :: "string \<rightharpoonup> KeystrokeDigraph list"
  ka_trigraphs :: "string \<rightharpoonup> KeystrokeTrigraph list"
  ka_typingProfiles :: "string \<rightharpoonup> TypingProfile"

definition newKeystrokeAnalyzer :: KeystrokeAnalyzer where
  "newKeystrokeAnalyzer =
     \<lparr>ka_keystrokeEvents = Map.empty, ka_digraphs = Map.empty,
      ka_trigraphs = Map.empty, ka_typingProfiles = Map.empty\<rparr>"

text \<open>
  The \<open>for\<close> loop of \<open>analyzeDigraphs\<close> over \<open>i = 0 .. length - 2\<close>: the digraphs it
  pushes, in order.
\<close>

fun digraphLoop :: "string \<Rightarrow> KeystrokeEvent list \<Rightarrow> KeystrokeDigraph list" where
  "digraphLoop sid (current # next # rest) =
     (if ke_action current = Up \<and> ke_action next = Down
         \<and> dsub (ke_t next) (ke_t current) \<ge> 10 \<and> dsub (ke_t next) (ke_t current) \<le> 2000
      then [\<lparr>dg_sessionId = sid, dg_key1 = ke_key current, dg_key2 = ke_key next,
             dg_latency = dsub (ke_t next) (ke_t current), dg_timestamp = ke_t next\<rparr>]
      else [])
     @ digraphLoop sid (next # rest)"
| "digraphLoop sid _ = []"

text \<open>
  \<open>analyzeDigraphs\<close> starts from the list already stored for the session
  (\<open>this.digraphs.get(sessionId) || []\<close>) and pushes onto it.
\<close>

definition analyzeDigraphs :: "KeystrokeAnalyzer \<Rightarrow> string \<Rightarrow> KeystrokeEvent list \<Rightarrow> KeystrokeAnalyzer" where
  "analyzeDigraphs ka sid events =
     (if length events < 2 then ka
      else ka\<lparr>ka_digraphs := (ka_digraphs ka)
                 (sid \<mapsto> orEmpty (ka_digraphs ka sid) @ digraphLoop sid events)\<rparr>)"

text \<open>
  The loop of \<open>analyzeTrigraphs\<close>, with the condition as the source writes it:
  \<open>second.action\<close> is tested against both \<open>'down'\<close> and \<open>'up'\<close>.
\<close>

fun trigraphLoop :: "string \<Rightarrow> KeystrokeEvent list \<Rightarrow> KeystrokeTrigraph list" where
  "trigraphLoop sid (first # second # third # rest) =
     (if ke_action first = Up \<and> ke_action second = Down
         \<and> ke_action second = Up \<and> ke_action third = Down
         \<and> dsub (ke_t second) (ke_t first) \<ge> 10 \<and> dsub (ke_t second) (ke_t first) \<le> 2000
         \<and> dsub (ke_t third) (ke_t second) \<ge> 10 \<and> dsub (ke_t third) (ke_t second) \<le> 2000
      then [\<lparr>tg_sessionId = sid, tg_key1 = ke_key first, tg_key2 = ke_key second,
             tg_key3 = ke_key third, tg_latency1 = dsub (ke_t second) (ke_t first),
             tg_latency2 = dsub (ke_t third) (ke_t second), tg_timestamp = ke_t third\<rparr>]
      else [])
     @ trigraphLoop sid (second # third # rest)"
| "trigraphLoop sid _ = []"

definition analyzeTrigraphs :: "KeystrokeAnalyzer \<Rightarrow> string \<Rightarrow> KeystrokeEvent list \<Rightarrow> KeystrokeAnalyzer" where
  "analyzeTrigraphs ka sid events =
     (if length events < 3 then ka
      else ka\<lparr>ka_trigraphs := (ka_trigraphs ka)
                 (sid \<mapsto> orEmpty (ka_trigraphs ka sid) @ trigraphLoop sid events)\<rparr>)"

definition recordKeystroke :: "KeystrokeAnalyzer \<Rightarrow> string \<Rightarrow> KeystrokeEvent \<Rightarrow> KeystrokeAnalyzer" where
  "recordKeystroke ka sid event =
     (let events = orEmpty (ka_keystrokeEvents ka sid) @ [event];
          ka1 = ka\<lparr>ka_keystrokeEvents := (ka_keystrokeEvents ka)(sid \<mapsto> events)\<rparr>;
          ka2 = analyzeDigraphs ka1 sid events
      in analyzeTrigraphs ka2 sid events)"

text \<open>A sequence of \<open>recordKeystroke\<close> calls on one session, first call first.\<close>

fun recordKeystrokes :: "KeystrokeAnalyzer \<Rightarrow> string \<Rightarrow> KeystrokeEvent list \<Rightarrow> KeystrokeAnalyzer" where
  "recordKeystrokes ka sid [] = ka"
| "recordKeystrokes ka sid (e # es) = recordKeystrokes (recordKeystroke ka sid e) sid es"

definition createEmptyProfile :: "string \<Rightarrow> TypingProfile" where
  "createEmptyProfile sid =
     \<lparr>tp_sessionId = sid, averageSpeed = 0, digraphLatencies = [], trigraphLatencies = [],
      keyHoldDurations = [], pauseDistribution = [], variance = 0\<rparr>"

text \<open>
  \<open>getSessionDuration\<close> sorts the array it is given in place (\<open>Array.prototype.sort\<close>,
  stable, comparator \<open>a.t - b.t\<close>); the model returns the array as it is left.
\<close>

definition getSessionDuration :: "KeystrokeEvent list \<Rightarrow> real \<times> KeystrokeEvent list" where
  "getSessionDuration events =
     (if length events < 2 then (0, events)
      else (let sorted = sort_key ke_t events
            in (dsub (ke_t (last sorted)) (ke_t (hd sorted)), sorted)))"

text \<open>
  Pushing a value onto the group of a key, creating the group at the end when the key
  is new: the \<open>has\<close>/\<open>set\<close>/\<open>get(...).push\<close> idiom on an insertion-ordered \<open>Map\<close>.
\<close>

fun groupPush :: "string \<Rightarrow> real \<Rightarrow> (string \<times> real list) list \<Rightarrow> (string \<times> real list) list" where
  "groupPush k v [] = [(k, [v])]"
| "groupPush k v ((k', vs) # g) =
     (if k = k' then (k', vs @ [v]) # g else (k', vs) # groupPush k v g)"

definition groupDigraphsByKeyPair :: "KeystrokeDigraph list \<Rightarrow> (string \<times> real list) list" where
  "groupDigraphsByKeyPair digraphs =
     foldl (\<lambda>groups d. groupPush (dg_key1 d @ ''-'' @ dg_key2 d) (dg_latency d) groups) [] digraphs"

definition groupTrigraphsByKeyTriple :: "KeystrokeTrigraph list \<Rightarrow> (string \<times> real list) list" where
  "groupTrigraphsByKeyTriple trigraphs =
     foldl (\<lambda>groups t. groupPush (tg_key1 t @ ''-'' @ tg_key2 t @ ''-'' @ tg_key3 t)
                          (ddiv (dadd (tg_latency1 t) (tg_latency2 t)) 2) groups) [] trigraphs"

text \<open>The mean of every group: \<open>reduce(sum) / length\<close>.\<close>

definition groupAverages :: "(string \<times> real list) list \<Rightarrow> (string \<times> real) list" where
  "groupAverages groups = map (\<lambda>(k, vs). (k, ddiv (doubleSum vs) (real (length vs)))) groups"

fun holdLoop :: "KeystrokeEvent list \<Rightarrow> (string \<times> real list) list \<Rightarrow> (string \<times> real list) list" where
  "holdLoop (press # release # rest) holdDurations =
     holdLoop (release # rest)
       (if ke_action press = Down \<and> ke_action release = Up \<and> ke_key press = ke_key release
           \<and> dsub (ke_t release) (ke_t press) > 0 \<and> dsub (ke_t release) (ke_t press) < 2000
        then groupPush (ke_key press) (dsub (ke_t release) (ke_t press)) holdDurations
        else holdDurations)"
| "holdLoop _ holdDurations = holdDurations"

definition calculateKeyHoldDurations :: "KeystrokeEvent list \<Rightarrow> (string \<times> real) list" where
  "calculateKeyHoldDurations events = groupAverages (holdLoop events [])"

text \<open>The differences \<open>xs[i].t - xs[i-1].t\<close> for \<open>i = 1 .. length - 1\<close>.\<close>

fun intervalsOf :: "real list \<Rightarrow> real list" where
  "intervalsOf (a # b # rest) = dsub b a # intervalsOf (b # rest)"
| "intervalsOf _ = []"

text \<open>\<open>events.filter(...)\<close> makes a new array, so the sort here touches no stored log.\<close>

definition keyPressTimes :: "KeystrokeEvent list \<Rightarrow> real list" where
  "keyPressTimes events = map ke_t (sort_key ke_t (filter (\<lambda>e. ke_action e = Down) events))"

definition calculatePauseDistribution :: "KeystrokeEvent list \<Rightarrow> real list" where
  "calculatePauseDistribution events = filter (\<lambda>pause. pause > 100) (intervalsOf (keyPressTimes events))"

text \<open>
  Population variance as both variance helpers compute it: the mean by a \<open>reduce\<close> and
  a division, then the mean of \<open>Math.pow(x - mean, 2)\<close> the same way.
\<close>

definition populationVariance :: "real list \<Rightarrow> real" where
  "populationVariance xs =
     (let mean = ddiv (doubleSum xs) (real (length xs))
      in ddiv (foldl (\<lambda>sum x. dadd sum (dmul (dsub x mean) (dsub x mean))) 0 xs)
              (real (length xs)))"

definition calculateInterKeystrokeVariance :: "KeystrokeEvent list \<Rightarrow> real" where
  "calculateInterKeystrokeVariance events =
     (let keyPresses = keyPressTimes events
      in if length keyPresses < 2 then 0 else populationVariance (intervalsOf keyPresses))"

definition calculateDigraphVariance :: "(string \<times> real) list \<Rightarrow> real" where
  "calculateDigraphVariance digraphLats =
     (let latencies = map snd digraphLats
      in if length latencies < 2 then 0 else populationVariance latencies)"

text \<open>
  \<open>generateTypingProfile\<close> returns the profile and the analyzer as it leaves it: the
  session's event array sorted by \<open>getSessionDuration\<close>, the profile stored. With no
  events it returns the empty profile and stores nothing.
\<close>

definition generateTypingProfile :: "KeystrokeAnalyzer \<Rightarrow> string \<Rightarrow> TypingProfile \<times> KeystrokeAnalyzer" where
  "generateTypingProfile ka sid =
     (let events = orEmpty (ka_keystrokeEvents ka sid);
          digraphs = orEmpty (ka_digraphs ka sid);
          trigraphs = orEmpty (ka_trigraphs ka sid)
      in if length events = 0 then (createEmptyProfile sid, ka)
         else
           (let sessionDuration = fst (getSessionDuration events);
                events' = snd (getSessionDuration events);
                characterCount = length (filter (\<lambda>e. ke_action e = Down \<and> length (ke_key e) = 1) events');
                profile =
                  \<lparr>tp_sessionId = sid,
                   averageSpeed = (if sessionDuration > 0
                                   then dmul (ddiv (real characterCount) sessionDuration) 60000
                                   else 0),
                   digraphLatencies = groupAverages (groupDigraphsByKeyPair digraphs),
                   trigraphLatencies = groupAverages (groupTrigraphsByKeyTriple trigraphs),
                   keyHoldDurations = calculateKeyHoldDurations events',
                   pauseDistribution = calculatePauseDistribution events',
                   variance = calculateInterKeystrokeVariance events'\<rparr>
            in (profile,
                ka\<lparr>ka_keystrokeEvents := (ka_keystrokeEvents ka)(sid \<mapsto> events'),
                   ka_typingProfiles := (ka_typingProfiles ka)(sid \<mapsto> profile)\<rparr>)))"

text \<open>
  The four threshold rules of \<open>detectTypingAnomalies\<close>, each taking the pair
  (anomalies, confidence) built so far, in the order of the source.
\<close>

definition ruleUniformTiming :: "TypingProfile \<Rightarrow> string list \<times> real \<Rightarrow> string list \<times> real" where
  "ruleUniformTiming profile acc =
     (if variance profile < 50
      then (fst acc @ [''Unusually uniform keystroke timing detected''],
            dadd (snd acc) (toDouble (3 / 10)))
      else acc)"

definition ruleTypingSpeed :: "TypingProfile \<Rightarrow> string list \<times> real \<Rightarrow> string list \<times> real" where
  "ruleTypingSpeed profile acc =
     (if averageSpeed profile > 200
      then (fst acc @ [''Unusually fast typing speed detected''],
            dadd (snd acc) (toDouble (2 / 10)))
      else if averageSpeed profile < 20
      then (fst acc @ [''Unusually slow typing speed detected''],
            dadd (snd acc) (toDouble (1 / 10)))
      else acc)"

definition ruleLongPauses :: "TypingProfile \<Rightarrow> string list \<times> real \<Rightarrow> string list \<times> real" where
  "ruleLongPauses profile acc =
     (let longPauses = length (filter (\<lambda>pause. pause > 5000) (pauseDistribution profile));
          totalPauses = length (pauseDistribution profile)
      in if totalPauses > 0 \<and> ddiv (real longPauses) (real totalPauses) > toDouble (3 / 10)
         then (fst acc @ [''Frequent long pauses detected (possible copy-paste)''],
               dadd (snd acc) (toDouble (2 / 10)))
         else acc)"

definition ruleDigraphConsistency :: "TypingProfile \<Rightarrow> string list \<times> real \<Rightarrow> string list \<times> real" where
  "ruleDigraphConsistency profile acc =
     (if calculateDigraphVariance (digraphLatencies profile) < 100
      then (fst acc @ [''Unusually consistent digraph timing detected''],
            dadd (snd acc) (toDouble (2 / 10)))
      else acc)"

definition detectTypingAnomalies :: "KeystrokeAnalyzer \<Rightarrow> string \<Rightarrow> Anomalies" where
  "detectTypingAnomalies ka sid =
     (case ka_typingProfiles ka sid of
        None \<Rightarrow> \<lparr>isSuspicious = False, anomalies = [], confidence = 0\<rparr>
      | Some profile \<Rightarrow>
          (let acc = ruleDigraphConsistency profile
                       (ruleLongPauses profile
                         (ruleTypingSpeed profile
                           (ruleUniformTiming profile ([], 0))))
           in \<lparr>isSuspicious = snd acc > toDouble (3 / 10), anomalies = fst acc,
               confidence = min (snd acc) 1\<rparr>))"

definition ka_clearSession :: "KeystrokeAnalyzer \<Rightarrow> string \<Rightarrow> KeystrokeAnalyzer" where
  "ka_clearSession ka sid =
     ka\<lparr>ka_keystrokeEvents := (ka_keystrokeEvents ka)(sid := None),
        ka_digraphs := (ka_digraphs ka)(sid := None),
        ka_trigraphs := (ka_trigraphs ka)(sid := None),
        ka_typingProfiles := (ka_typingProfiles ka)(sid := None)\<rparr>"

section \<open>CodeStylometryAnalyzer (services/codeStylometryAnalyzer.ts)\<close>

record StructuralPatterns =
  functionCount :: nat
  classCount :: nat
  importCount :: nat
  variableNamingPattern :: string

record CodeStylometryFeatures =
  cf_sessionId :: string
  lineCount :: nat
  characterCount :: nat
  hasTernaryOperators :: bool
  hasDirectReturns :: bool
  hasDuplicateExpressions :: bool
  averageLineLength :: real
  commentRatio :: real
  complexityScore :: real
  aiGeneratedProbability :: real
  perplexityScore :: real
  structuralPatterns :: StructuralPatterns

definition ruleAiProbability :: "CodeStylometryFeatures \<Rightarrow> string list \<times> real \<Rightarrow> string list \<times> real" where
  "ruleAiProbability features acc =
     (if aiGeneratedProbability features > toDouble (7 / 10)
      then (fst acc @ [''High probability of AI-generated code''],
            dadd (snd acc) (toDouble (4 / 10)))
      else acc)"

definition ruleChatGptPatterns :: "CodeStylometryFeatures \<Rightarrow> string list \<times> real \<Rightarrow> string list \<times> real" where
  "ruleChatGptPatterns features acc =
     (if hasTernaryOperators features \<and> hasDirectReturns features
      then (fst acc @ [''Code exhibits ChatGPT-like patterns (ternary operators + direct returns)''],
            dadd (snd acc) (toDouble (3 / 10)))
      else acc)"

definition ruleCleanCode :: "CodeStylometryFeatures \<Rightarrow> string list \<times> real \<Rightarrow> string list \<times> real" where
  "ruleCleanCode features acc =
     (if commentRatio features < toDouble (2 / 100) \<and> lineCount features > 20
      then (fst acc @ [''Unusually clean code with minimal comments''],
            dadd (snd acc) (toDouble (2 / 10)))
      else acc)"

definition ruleSimpleCode :: "CodeStylometryFeatures \<Rightarrow> string list \<times> real \<Rightarrow> string list \<times> real" where
  "ruleSimpleCode features acc =
     (if complexityScore features < 2 \<and> lineCount features > 30
      then (fst acc @ [''Unusually simple code for its length''],
            dadd (snd acc) (toDouble (2 / 10)))
      else acc)"

definition ruleCamelCase :: "CodeStylometryFeatures \<Rightarrow> string list \<times> real \<Rightarrow> string list \<times> real" where
  "ruleCamelCase features acc =
     (if variableNamingPattern (structuralPatterns features) = ''camelCase''
         \<and> functionCount (structuralPatterns features) > 5
      then (fst acc @ [''Consistent camelCase naming (AI-typical)''],
            dadd (snd acc) (toDouble (1 / 10)))
      else acc)"

definition detectCodeAnomalies :: "CodeStylometryFeatures \<Rightarrow> Anomalies" where
  "detectCodeAnomalies features =
     (let acc = ruleCamelCase features
                  (ruleSimpleCode features
                    (ruleCleanCode features
                      (ruleChatGptPatterns features
                        (ruleAiProbability features ([], 0)))))
      in \<lparr>isSuspicious = snd acc > toDouble (3 / 10), anomalies = fst acc,
          confidence = min (snd acc) 1\<rparr>)"

text \<open>
  What \<open>analyzeCode\<close> returns for the empty text, the sample of a session that never
  submitted code (\<open>codeSamples.get(sessionId) || ''\<close>): one empty line, no pattern
  matches, probability \<open>0.1 + 0.1\<close> (no duplicate line, comment ratio below 0.05).
\<close>

definition emptySampleFeatures :: CodeStylometryFeatures where
  "emptySampleFeatures =
     \<lparr>cf_sessionId = [], lineCount = 1, characterCount = 0, hasTernaryOperators = False,
      hasDirectReturns = False, hasDuplicateExpressions = False, averageLineLength = 0,
      commentRatio = 0, complexityScore = 0, aiGeneratedProbability = toDouble (2 / 10),
      perplexityScore = 0,
      structuralPatterns = \<lparr>functionCount = 0, classCount = 0, importCount = 0,
                             variableNamingPattern = ''unknown''\<rparr>\<rparr>"

section \<open>FraudDetectionService (services/fraudDetectionService.ts)\<close>

datatype FraudRiskLevel = Low | Medium | High

record FraudReason =
  code :: string
  message :: string
  weight :: "real option"

text \<open>
  \<open>fs_at\<close> (the field \<open>at\<close>) is the instant (in ms) whose ISO-8601 rendering the code stores; the rendering
  is injective on instants, so equal strings are equal instants.
\<close>

record FraudScore =
  fs_sessionId :: string
  score :: real
  level :: FraudRiskLevel
  reasons :: "FraudReason list"
  fs_at :: real

datatype Speaker = Candidate | Interviewer

record TranscriptChunk =
  tc_id :: "string option"
  tc_sessionId :: string
  seq :: real
  tc_text :: string
  startMs :: real
  endMs :: real
  speaker :: "Speaker option"

text \<open>The event types the service tests for, beyond the six of the declared union.\<close>

datatype ScreenEventType =
  TAB_BLUR | TAB_FOCUS | PASTE | URL_CHANGE | COPY | WINDOW_SWITCH
  | KEYSTROKE_BATCH | MOUSE_ANOMALY | APPLICATION_SWITCH

text \<open>The two entries of the free-form \<open>meta\<close> mapping that the service reads.\<close>

record EventMeta =
  meta_count :: "real option"
  meta_pattern :: "string option"

record ScreenEvent =
  se_id :: "string option"
  se_sessionId :: string
  se_t :: real
  se_type :: ScreenEventType
  se_meta :: "EventMeta option"

datatype CompileAction = Compile | Run | Test

record CompileRunEvent =
  ce_id :: "string option"
  ce_sessionId :: string
  ce_t :: real
  ce_action :: CompileAction
  ce_ok :: "bool option"

datatype SessionStatus = Created | Live | Ended | Canceled

record Consent =
  audio :: bool
  video :: bool
  screen :: bool
  telemetry :: bool

record SessionData =
  sd_id :: string
  candidateId :: string
  companyId :: string
  role :: "string option"
  status :: SessionStatus
  startedAt :: "real option"
  endedAt :: "real option"
  consent :: Consent

text \<open>
  The service object. \<open>codeStylometryAnalyzer\<close> stands for the analyzer's
  \<open>analyzeCode\<close> method with the default language: its regular-expression feature
  extraction is not modelled, any function from the text to features is admitted.
\<close>

record FraudDetectionService =
  sessions :: "string \<rightharpoonup> SessionData"
  fraudSignals :: "string \<rightharpoonup> FraudScore list"
  transcriptChunks :: "string \<rightharpoonup> TranscriptChunk list"
  screenEvents :: "string \<rightharpoonup> ScreenEvent list"
  compileEvents :: "string \<rightharpoonup> CompileRunEvent list"
  keystrokeEvents :: "string \<rightharpoonup> KeystrokeEvent list"
  codeSamples :: "string \<rightharpoonup> string"
  keystrokeAnalyzer :: KeystrokeAnalyzer
  codeStylometryAnalyzer :: "string \<Rightarrow> CodeStylometryFeatures"

definition newFraudDetectionService :: "(string \<Rightarrow> CodeStylometryFeatures) \<Rightarrow> FraudDetectionService" where
  "newFraudDetectionService analyzeCode =
     \<lparr>sessions = Map.empty, fraudSignals = Map.empty, transcriptChunks = Map.empty,
      screenEvents = Map.empty, compileEvents = Map.empty, keystrokeEvents = Map.empty,
      codeSamples = Map.empty, keystrokeAnalyzer = newKeystrokeAnalyzer,
      codeStylometryAnalyzer = analyzeCode\<rparr>"

datatype ServiceError = SessionNotFound

text \<open>
  \<open>startInterview\<close>: \<open>sessionId\<close> is the identifier the code builds from the clock and
  a random UUID, \<open>now\<close> the clock reading.
\<close>

definition startInterview ::
  "FraudDetectionService \<Rightarrow> string \<Rightarrow> real \<Rightarrow> string \<Rightarrow> string \<Rightarrow> string option \<Rightarrow> Consent
     \<Rightarrow> string \<times> FraudDetectionService" where
  "startInterview st sessionId now cand cmp rl cons =
     (sessionId,
      st\<lparr>sessions := (sessions st)(sessionId \<mapsto>
             \<lparr>sd_id = sessionId, candidateId = cand, companyId = cmp, role = rl,
              status = Live, startedAt = Some now, endedAt = None, consent = cons\<rparr>),
         fraudSignals := (fraudSignals st)(sessionId \<mapsto> []),
         transcriptChunks := (transcriptChunks st)(sessionId \<mapsto> []),
         screenEvents := (screenEvents st)(sessionId \<mapsto> []),
         compileEvents := (compileEvents st)(sessionId \<mapsto> [])\<rparr>)"

text \<open>
  \<open>endInterview\<close> returns the outcome (\<open>Inl\<close> the thrown error, \<open>Inr\<close> the \<open>success\<close>
  flag) and the service as it leaves it.
\<close>

definition endInterview ::
  "FraudDetectionService \<Rightarrow> string \<Rightarrow> real \<Rightarrow> (ServiceError + bool) \<times> FraudDetectionService" where
  "endInterview st sessionId now =
     (case sessions st sessionId of
        None \<Rightarrow> (Inl SessionNotFound, st)
      | Some session \<Rightarrow>
          (Inr True,
           st\<lparr>sessions := (sessions st)(sessionId \<mapsto>
                  session\<lparr>status := Ended, endedAt := Some now\<rparr>)\<rparr>))"

subsection \<open>Behavioural patterns\<close>

text \<open>Decimal rendering of a count, for the template literals of the reason messages.\<close>

definition digitChar :: "nat \<Rightarrow> char" where
  "digitChar d = ''0123456789'' ! d"

function showNat :: "nat \<Rightarrow> string" where
  "showNat n = (if n < 10 then [digitChar n] else showNat (n div 10) @ [digitChar (n mod 10)])"
  by pat_completeness auto
termination
  by (relation "measure id") auto

record BehavioralAnalysis =
  pasteBursts :: nat
  tabSwitches :: nat
  compileCount :: nat
  avgChunkLen :: real
  sessionDuration :: "real option"
  suspiciousTiming :: bool
  keystrokeAnomalies :: bool
  mouseAnomalies :: bool
  applicationSwitching :: bool

text \<open>The gaps \<open>sorted[i].startMs - sorted[i-1].endMs\<close> for \<open>i = 1 .. length - 1\<close>.\<close>

fun gapsOf :: "TranscriptChunk list \<Rightarrow> real list" where
  "gapsOf (a # b # rest) = (startMs b - endMs a) # gapsOf (b # rest)"
| "gapsOf _ = []"

text \<open>
  \<open>detectSuspiciousTiming\<close> sorts \<open>chunks\<close> in place (\<open>chunks.sort\<close>, stable, comparator
  \<open>a.startMs - b.startMs\<close>) once there are two of them; the model returns the array
  as it is left.
\<close>

definition detectSuspiciousTiming ::
  "TranscriptChunk list \<Rightarrow> ScreenEvent list \<Rightarrow> bool \<times> TranscriptChunk list" where
  "detectSuspiciousTiming chunks screenEvs =
     (if length chunks < 2 then (False, chunks)
      else (let sortedChunks = sort_key startMs chunks;
                gaps = gapsOf sortedChunks;
                avgGap = sum_list gaps / real (length gaps);
                longGaps = length (filter (\<lambda>gap. gap > avgGap * 3) gaps)
            in (real longGaps / real (length gaps) > 3 / 10, sortedChunks)))"

definition detectKeystrokeAnomalies :: "ScreenEvent list \<Rightarrow> bool" where
  "detectKeystrokeAnomalies screenEvs =
     (let keystrokeBatches = filter (\<lambda>e. se_type e = KEYSTROKE_BATCH) screenEvs
      in if length keystrokeBatches = 0 then False
         else length (filter (\<lambda>e. case se_meta e of None \<Rightarrow> False
                                   | Some m \<Rightarrow> (case meta_count m of None \<Rightarrow> False
                                                | Some c \<Rightarrow> c \<noteq> 0 \<and> c > 50))
                        keystrokeBatches) > 0)"

definition detectMouseAnomalies :: "ScreenEvent list \<Rightarrow> bool" where
  "detectMouseAnomalies screenEvs =
     (let mouseEvs = filter (\<lambda>e. se_type e = MOUSE_ANOMALY) screenEvs
      in if length mouseEvs = 0 then False
         else length (filter (\<lambda>e. case se_meta e of None \<Rightarrow> False
                                   | Some m \<Rightarrow> (case meta_pattern m of None \<Rightarrow> False
                                                | Some p \<Rightarrow> p \<noteq> [] \<and> p \<in> set [''linear_movement'',
                                                      ''perfect_clicking'', ''no_human_delay'']))
                        mouseEvs) > 0)"

text \<open>\<open>now\<close> is the reading of \<open>Date.now()\<close>; one reading serves the whole call.\<close>

definition detectApplicationSwitching :: "ScreenEvent list \<Rightarrow> real \<Rightarrow> bool" where
  "detectApplicationSwitching screenEvs now =
     (let appSwitches = filter (\<lambda>e. se_type e = APPLICATION_SWITCH) screenEvs
      in if length appSwitches < 5 then False
         else length (filter (\<lambda>e. now - se_t e < 30000) appSwitches) \<ge> 5)"

text \<open>
  \<open>Math.max(...ends) - Math.min(...starts)\<close>. With every log empty the code gets
  \<open>-Infinity - Infinity = -Infinity\<close>, which the model writes \<open>None\<close>: it is below every
  threshold.
\<close>

definition logSpan :: "real list \<Rightarrow> real list \<Rightarrow> real option" where
  "logSpan starts ends =
     (case starts of [] \<Rightarrow> None
      | s # ss \<Rightarrow> (case ends of [] \<Rightarrow> None
                  | e # es \<Rightarrow> Some (fold max es e - fold min ss s)))"

definition analyzeBehavioralPatterns ::
  "TranscriptChunk list \<Rightarrow> ScreenEvent list \<Rightarrow> CompileRunEvent list \<Rightarrow> real
     \<Rightarrow> BehavioralAnalysis \<times> TranscriptChunk list" where
  "analyzeBehavioralPatterns chunks screenEvs compileEvs now =
     (let totalChars = sum_list (map (\<lambda>c. length (tc_text c)) chunks)
      in (\<lparr>pasteBursts = length (filter (\<lambda>e. se_type e = PASTE) screenEvs),
           tabSwitches = length (filter (\<lambda>e. se_type e = WINDOW_SWITCH \<or> se_type e = TAB_BLUR) screenEvs),
           compileCount = length compileEvs,
           avgChunkLen = (if length chunks \<noteq> 0 then real totalChars / real (length chunks) else 0),
           sessionDuration =
             logSpan (map startMs chunks @ map se_t screenEvs @ map ce_t compileEvs)
                     (map endMs chunks @ map se_t screenEvs @ map ce_t compileEvs),
           suspiciousTiming = fst (detectSuspiciousTiming chunks screenEvs),
           keystrokeAnomalies = detectKeystrokeAnomalies screenEvs,
           mouseAnomalies = detectMouseAnomalies screenEvs,
           applicationSwitching = detectApplicationSwitching screenEvs now\<rparr>,
          snd (detectSuspiciousTiming chunks screenEvs)))"

subsection \<open>Cross-modal fusion\<close>

text \<open>
  The seven blocks of the fusion scoring in \<open>calculateEnhancedFraudScore\<close>, each taking
  the pair (rawScore, reasons) built so far, in the order of the source.
\<close>

definition fuseKeystroke :: "Anomalies \<Rightarrow> real \<times> FraudReason list \<Rightarrow> real \<times> FraudReason list" where
  "fuseKeystroke typingAn acc =
     (if isSuspicious typingAn
      then (fst acc + confidence typingAn * 30,
            snd acc @ map (\<lambda>anomaly. \<lparr>code = ''KEYSTROKE_ANOMALY'', message = anomaly,
                                       weight = Some (confidence typingAn * 10)\<rparr>)
                          (anomalies typingAn))
      else acc)"

definition fuseStylometry :: "Anomalies \<Rightarrow> real \<times> FraudReason list \<Rightarrow> real \<times> FraudReason list" where
  "fuseStylometry codeAn acc =
     (if isSuspicious codeAn
      then (fst acc + confidence codeAn * 25,
            snd acc @ map (\<lambda>anomaly. \<lparr>code = ''CODE_STYLOMETRY_ANOMALY'', message = anomaly,
                                       weight = Some (confidence codeAn * 8)\<rparr>)
                          (anomalies codeAn))
      else acc)"

definition fusePaste :: "BehavioralAnalysis \<Rightarrow> real \<times> FraudReason list \<Rightarrow> real \<times> FraudReason list" where
  "fusePaste b acc =
     (if pasteBursts b \<ge> 2
      then (fst acc + min (real (pasteBursts b) * 6) 15,
            snd acc @ [\<lparr>code = ''PASTE_BURST'',
                        message = ''Multiple large paste actions ('' @ showNat (pasteBursts b) @ '' detected)'',
                        weight = Some (min (real (pasteBursts b) * 6) 15)\<rparr>])
      else acc)"

definition fuseTabs :: "BehavioralAnalysis \<Rightarrow> real \<times> FraudReason list \<Rightarrow> real \<times> FraudReason list" where
  "fuseTabs b acc =
     (if tabSwitches b \<ge> 3
      then (fst acc + min (real (tabSwitches b) * 3) 10,
            snd acc @ [\<lparr>code = ''TAB_SWITCHING'',
                        message = ''Frequent tab/window switching ('' @ showNat (tabSwitches b) @ '' switches)'',
                        weight = Some (min (real (tabSwitches b) * 3) 10)\<rparr>])
      else acc)"

definition longSession :: "BehavioralAnalysis \<Rightarrow> bool" where
  "longSession b = (case sessionDuration b of None \<Rightarrow> False | Some d \<Rightarrow> d > 300000)"

definition fuseCompile :: "BehavioralAnalysis \<Rightarrow> real \<times> FraudReason list \<Rightarrow> real \<times> FraudReason list" where
  "fuseCompile b acc =
     (if compileCount b \<le> 1 \<and> longSession b
      then (fst acc + 10,
            snd acc @ [\<lparr>code = ''LOW_COMPILE'',
                        message = ''Low compile/run activity for extended session'',
                        weight = Some 10\<rparr>])
      else acc)"

definition fuseTiming :: "BehavioralAnalysis \<Rightarrow> real \<times> FraudReason list \<Rightarrow> real \<times> FraudReason list" where
  "fuseTiming b acc =
     (if suspiciousTiming b
      then (fst acc + 5,
            snd acc @ [\<lparr>code = ''SUSPICIOUS_TIMING'', message = ''Unusual timing patterns detected'',
                        weight = Some 5\<rparr>])
      else acc)"

definition fuseMouse :: "BehavioralAnalysis \<Rightarrow> real \<times> FraudReason list \<Rightarrow> real \<times> FraudReason list" where
  "fuseMouse b acc =
     (if mouseAnomalies b
      then (fst acc + 3,
            snd acc @ [\<lparr>code = ''MOUSE_ANOMALIES'',
                        message = ''Unusual mouse activity patterns detected'', weight = Some 3\<rparr>])
      else acc)"

definition fuseAppSwitching :: "BehavioralAnalysis \<Rightarrow> real \<times> FraudReason list \<Rightarrow> real \<times> FraudReason list" where
  "fuseAppSwitching b acc =
     (if applicationSwitching b
      then (fst acc + 2,
            snd acc @ [\<lparr>code = ''APPLICATION_SWITCHING'',
                        message = ''Frequent application switching detected'', weight = Some 2\<rparr>])
      else acc)"

text \<open>The local variables \<open>rawScore\<close> and \<open>reasons\<close> when the last block is done.\<close>

definition crossModalFusion :: "Anomalies \<Rightarrow> Anomalies \<Rightarrow> BehavioralAnalysis \<Rightarrow> real \<times> FraudReason list" where
  "crossModalFusion typingAn codeAn b =
     fuseAppSwitching b (fuseMouse b (fuseTiming b (fuseCompile b (fuseTabs b (fusePaste b
       (fuseStylometry codeAn (fuseKeystroke typingAn (0, []))))))))"

text \<open>\<open>chunks[0]?.sessionId || 'unknown'\<close>: the empty string is falsy as well.\<close>

definition scoringSessionId :: "TranscriptChunk list \<Rightarrow> string" where
  "scoringSessionId chunks =
     (case chunks of [] \<Rightarrow> ''unknown''
      | c # _ \<Rightarrow> (if tc_sessionId c = [] then ''unknown'' else tc_sessionId c))"

text \<open>
  \<open>calculateEnhancedFraudScore\<close> returns the score, the keystroke analyzer as
  \<open>generateTypingProfile\<close> leaves it, and \<open>chunks\<close> as \<open>analyzeBehavioralPatterns\<close> leaves
  it. The session identifier of the result is read after the sort.
\<close>

definition calculateEnhancedFraudScore ::
  "KeystrokeAnalyzer \<Rightarrow> (string \<Rightarrow> CodeStylometryFeatures) \<Rightarrow> real
     \<Rightarrow> TranscriptChunk list \<Rightarrow> ScreenEvent list \<Rightarrow> CompileRunEvent list
     \<Rightarrow> KeystrokeEvent list \<Rightarrow> string
     \<Rightarrow> FraudScore \<times> KeystrokeAnalyzer \<times> TranscriptChunk list" where
  "calculateEnhancedFraudScore ka analyzeCode now chunks screenEvs compileEvs keystrokeEvs codeSample =
     (let ka' = snd (generateTypingProfile ka (scoringSessionId chunks));
          typingAn = detectTypingAnomalies ka' (scoringSessionId chunks);
          codeAn = detectCodeAnomalies (analyzeCode codeSample);
          behavioral = fst (analyzeBehavioralPatterns chunks screenEvs compileEvs now);
          chunks' = snd (analyzeBehavioralPatterns chunks screenEvs compileEvs now);
          rawScore = fst (crossModalFusion typingAn codeAn behavioral);
          clamped = max 0 (min 100 rawScore)
      in (\<lparr>fs_sessionId = scoringSessionId chunks',
           score = clamped,
           level = (if clamped \<ge> 70 then High else if clamped \<ge> 40 then Medium else Low),
           reasons = snd (crossModalFusion typingAn codeAn behavioral),
           fs_at = now\<rparr>,
          ka', chunks'))"

subsection \<open>Rescoring, ingestion and retrieval\<close>

text \<open>
  \<open>analyzeFraud\<close> reads the session's logs, scores them and pushes the score onto the
  session's history. \<open>chunks\<close> is the stored array itself when the session has one (a
  fresh \<open>[]\<close> otherwise), so what the scoring does to it in place is what the store
  holds afterwards.
\<close>

definition analyzeFraud :: "FraudDetectionService \<Rightarrow> string \<Rightarrow> real \<Rightarrow> FraudDetectionService" where
  "analyzeFraud st sessionId now =
     (let result = calculateEnhancedFraudScore (keystrokeAnalyzer st) (codeStylometryAnalyzer st) now
                     (orEmpty (transcriptChunks st sessionId))
                     (orEmpty (screenEvents st sessionId))
                     (orEmpty (compileEvents st sessionId))
                     (orEmpty (keystrokeEvents st sessionId))
                     (case codeSamples st sessionId of None \<Rightarrow> [] | Some c \<Rightarrow> c)
      in st\<lparr>keystrokeAnalyzer := fst (snd result),
            transcriptChunks :=
              (case transcriptChunks st sessionId of
                 None \<Rightarrow> transcriptChunks st
               | Some _ \<Rightarrow> (transcriptChunks st)(sessionId \<mapsto> snd (snd result))),
            fraudSignals := (fraudSignals st)
              (sessionId \<mapsto> orEmpty (fraudSignals st sessionId) @ [fst result])\<rparr>)"

text \<open>
  The ingestion operations return the \<open>success\<close> flag of their result object and the
  service as they leave it. \<open>uuid\<close> is the value of \<open>randomUUID()\<close>, \<open>now\<close> the clock.
\<close>

definition ingestTranscript ::
  "FraudDetectionService \<Rightarrow> TranscriptChunk \<Rightarrow> string \<Rightarrow> real \<Rightarrow> bool \<times> FraudDetectionService" where
  "ingestTranscript st data uuid now =
     (let chunks = orEmpty (transcriptChunks st (tc_sessionId data)) @ [data\<lparr>tc_id := Some uuid\<rparr>];
          st1 = st\<lparr>transcriptChunks := (transcriptChunks st)(tc_sessionId data \<mapsto> chunks)\<rparr>
      in (True, analyzeFraud st1 (tc_sessionId data) now))"

definition ingestScreenEvent ::
  "FraudDetectionService \<Rightarrow> ScreenEvent \<Rightarrow> string \<Rightarrow> real \<Rightarrow> bool \<times> FraudDetectionService" where
  "ingestScreenEvent st data uuid now =
     (let events = orEmpty (screenEvents st (se_sessionId data)) @ [data\<lparr>se_id := Some uuid\<rparr>];
          st1 = st\<lparr>screenEvents := (screenEvents st)(se_sessionId data \<mapsto> events)\<rparr>
      in (True, analyzeFraud st1 (se_sessionId data) now))"

definition ingestCompileEvent ::
  "FraudDetectionService \<Rightarrow> CompileRunEvent \<Rightarrow> string \<Rightarrow> real \<Rightarrow> bool \<times> FraudDetectionService" where
  "ingestCompileEvent st data uuid now =
     (let events = orEmpty (compileEvents st (ce_sessionId data)) @ [data\<lparr>ce_id := Some uuid\<rparr>];
          st1 = st\<lparr>compileEvents := (compileEvents st)(ce_sessionId data \<mapsto> events)\<rparr>
      in (True, analyzeFraud st1 (ce_sessionId data) now))"

definition ingestKeystrokeEvent ::
  "FraudDetectionService \<Rightarrow> KeystrokeEvent \<Rightarrow> real \<Rightarrow> bool \<times> FraudDetectionService" where
  "ingestKeystrokeEvent st data now =
     (let events = orEmpty (keystrokeEvents st (ke_sessionId data)) @ [data];
          st1 = st\<lparr>keystrokeEvents := (keystrokeEvents st)(ke_sessionId data \<mapsto> events),
                   keystrokeAnalyzer := recordKeystroke (keystrokeAnalyzer st) (ke_sessionId data) data\<rparr>
      in (True, analyzeFraud st1 (ke_sessionId data) now))"

text \<open>The service's own \<open>analyzeCode(sessionId, code)\<close>: store the sample, rescore.\<close>

definition submitCodeSample ::
  "FraudDetectionService \<Rightarrow> string \<Rightarrow> string \<Rightarrow> real \<Rightarrow> bool \<times> FraudDetectionService" where
  "submitCodeSample st sessionId src now =
     (True, analyzeFraud (st\<lparr>codeSamples := (codeSamples st)(sessionId \<mapsto> src)\<rparr>) sessionId now)"

text \<open>
  \<open>getLatestScore\<close> changes nothing in the service; \<open>now\<close> is the clock reading of the
  call, which the default for an empty history carries.
\<close>

definition getLatestScore :: "FraudDetectionService \<Rightarrow> string \<Rightarrow> real \<Rightarrow> FraudScore" where
  "getLatestScore st sessionId now =
     (case orEmpty (fraudSignals st sessionId) of
        [] \<Rightarrow> \<lparr>fs_sessionId = sessionId, score = 0, level = Low, reasons = [], fs_at = now\<rparr>
      | s # signals \<Rightarrow> last (s # signals))"

definition clearSession :: "FraudDetectionService \<Rightarrow> string \<Rightarrow> FraudDetectionService" where
  "clearSession st sessionId =
     st\<lparr>sessions := (sessions st)(sessionId := None),
        fraudSignals := (fraudSignals st)(sessionId := None),
        transcriptChunks := (transcriptChunks st)(sessionId := None),
        screenEvents := (screenEvents st)(sessionId := None),
        compileEvents := (compileEvents st)(sessionId := None),
        keystrokeEvents := (keystrokeEvents st)(sessionId := None),
        codeSamples := (codeSamples st)(sessionId := None),
        keystrokeAnalyzer := ka_clearSession (keystrokeAnalyzer st) sessionId\<rparr>"

section \<open>The fusion sum as the specification words it\<close>


section \<open>Inputs of the concrete runs\<close>

text \<open>
  The runs below never submit code, so the only text the stylometry analyzer sees is
  the empty one; this analyzer answers with \<open>emptySampleFeatures\<close>.
\<close>

definition sampleFreeAnalyzer :: "string \<Rightarrow> CodeStylometryFeatures" where
  "sampleFreeAnalyzer src = emptySampleFeatures"

text \<open>
  Features of a 25-line sample without comments, six functions, camelCase names:
  only the clean-code rule and the naming rule fire.
\<close>

definition cleanCamelFeatures :: CodeStylometryFeatures where
  "cleanCamelFeatures =
     \<lparr>cf_sessionId = [], lineCount = 25, characterCount = 500, hasTernaryOperators = False,
      hasDirectReturns = False, hasDuplicateExpressions = False, averageLineLength = 20,
      commentRatio = 0, complexityScore = 8, aiGeneratedProbability = toDouble (2 / 10),
      perplexityScore = 0,
      structuralPatterns = \<lparr>functionCount = 6, classCount = 0, importCount = 0,
                             variableNamingPattern = ''camelCase''\<rparr>\<rparr>"

definition freshService :: FraudDetectionService where
  "freshService = newFraudDetectionService sampleFreeAnalyzer"

definition keyEvent :: "string \<Rightarrow> real \<Rightarrow> string \<Rightarrow> KeyAction \<Rightarrow> KeystrokeEvent" where
  "keyEvent sid t k a = \<lparr>ke_sessionId = sid, ke_t = t, ke_key = k, ke_action = a\<rparr>"

definition chunkOf :: "string \<Rightarrow> real \<Rightarrow> string \<Rightarrow> real \<Rightarrow> real \<Rightarrow> TranscriptChunk" where
  "chunkOf sid n txt s e =
     \<lparr>tc_id = None, tc_sessionId = sid, seq = n, tc_text = txt, startMs = s, endMs = e,
      speaker = None\<rparr>"



definition allConsent :: Consent where
  "allConsent = \<lparr>audio = True, video = True, screen = True, telemetry = True\<rparr>"

text \<open>
  Three analyzers, each with one session typed and its profile generated. The first
  session types \<open>a\<close>, \<open>b\<close>, \<open>c\<close> evenly and fast (two key pairs, 40 and 50 ms apart).
\<close>

definition typedEvents :: "KeystrokeEvent list" where
  "typedEvents =
     [keyEvent ''s1'' 0 ''a'' Down, keyEvent ''s1'' 80 ''a'' Up,
      keyEvent ''s1'' 120 ''b'' Down, keyEvent ''s1'' 200 ''b'' Up,
      keyEvent ''s1'' 250 ''c'' Down, keyEvent ''s1'' 300 ''c'' Up]"

definition typedAnalyzer :: KeystrokeAnalyzer where
  "typedAnalyzer =
     snd (generateTypingProfile (recordKeystrokes newKeystrokeAnalyzer ''s1'' typedEvents) ''s1'')"

text \<open>
  The second session presses \<open>Enter\<close>, \<open>Enter\<close>, \<open>a\<close> slowly and releases nothing: no
  digraph, one character in four seconds.
\<close>

definition slowEvents :: "KeystrokeEvent list" where
  "slowEvents =
     [keyEvent ''s1'' 0 ''Enter'' Down, keyEvent ''s1'' 1000 ''Enter'' Down,
      keyEvent ''s1'' 4000 ''a'' Down]"

definition slowAnalyzer :: KeystrokeAnalyzer where
  "slowAnalyzer =
     snd (generateTypingProfile (recordKeystrokes newKeystrokeAnalyzer ''s1'' slowEvents) ''s1'')"

text \<open>
  The third session types \<open>a\<close>, \<open>b\<close>, \<open>c\<close> with key pairs 50 and 950 ms apart, then
  waits more than six seconds before \<open>d\<close>.
\<close>

definition pausingEvents :: "KeystrokeEvent list" where
  "pausingEvents =
     [keyEvent ''s1'' 0 ''a'' Down, keyEvent ''s1'' 50 ''a'' Up,
      keyEvent ''s1'' 100 ''b'' Down, keyEvent ''s1'' 150 ''b'' Up,
      keyEvent ''s1'' 1100 ''c'' Down, keyEvent ''s1'' 1150 ''c'' Up,
      keyEvent ''s1'' 7500 ''d'' Down]"

definition pausingAnalyzer :: KeystrokeAnalyzer where
  "pausingAnalyzer =
     snd (generateTypingProfile (recordKeystrokes newKeystrokeAnalyzer ''s1'' pausingEvents) ''s1'')"

text \<open>A session started at 10 ms and already ended at 20 ms.\<close>

definition endedService :: FraudDetectionService where
  "endedService =
     snd (endInterview
            (snd (startInterview freshService ''s1'' 10 ''cand'' ''co'' None allConsent))
            ''s1'' 20)"

text \<open>A service whose session \<open>s1\<close> has one score in its history.\<close>

definition scoredService :: FraudDetectionService where
  "scoredService = snd (ingestKeystrokeEvent freshService (keyEvent ''s1'' 0 ''a'' Down) 5)"

section \<open>Projections of the scoring pipeline\<close>

lemma upSearch_numeral:
  "upSearch (numeral k) x = (if x < 2 then 0 else Suc (upSearch (pred_numeral k) (x / 2)))"
  by (simp add: numeral_eq_Suc)

lemma downSearch_numeral:
  "downSearch (numeral k) x = (if 1 \<le> x then 0 else Suc (downSearch (pred_numeral k) (x * 2)))"
  by (simp add: numeral_eq_Suc)

text \<open>
  Evaluation rules: \<open>toDouble\<close> is unfolded on a literal only, so that an operation is
  evaluated once its operands are.
\<close>

lemmas toDouble_literal =
  toDouble_def [of 0] toDouble_def [of 1] toDouble_def [of "- 1"]
  toDouble_def [of "numeral k" for k] toDouble_def [of "- numeral k" for k]
  toDouble_def [of "1 / numeral k" for k] toDouble_def [of "- (1 / numeral k)" for k]
  toDouble_def [of "numeral k / numeral l" for k l]
  toDouble_def [of "- (numeral k / numeral l)" for k l]

lemmas double_eval = toDouble_literal exponentOf_def pow2_def roundHalfEven_def
  upSearch_numeral downSearch_numeral dadd_def dsub_def dmul_def ddiv_def

lemma double_tenths:
  "toDouble (1 / 10) = 3602879701896397 / 36028797018963968"
  "toDouble (2 / 10) = 3602879701896397 / 18014398509481984"
  "toDouble (3 / 10) = 5404319552844595 / 18014398509481984"
  "toDouble (7 / 10) = 3152519739159347 / 4503599627370496"
  by (simp_all add: double_eval)

lemma roundHalfEven_nonneg: "0 \<le> x \<Longrightarrow> 0 \<le> roundHalfEven x"
  by (simp add: roundHalfEven_def)

lemma pow2_pos: "0 < pow2 e"
  by (simp add: pow2_def)

lemma toDouble_nonneg: "0 \<le> x \<Longrightarrow> 0 \<le> toDouble x"
  by (simp add: toDouble_def roundHalfEven_nonneg pow2_pos less_imp_le)

lemma foldl_dadd_nonneg: "0 \<le> a \<Longrightarrow> \<forall>x \<in> set xs. 0 \<le> x \<Longrightarrow> 0 \<le> foldl dadd a xs"
  by (induction xs arbitrary: a) (simp_all add: dadd_def toDouble_nonneg)

lemma doubleSum_nonneg: "\<forall>x \<in> set xs. 0 \<le> x \<Longrightarrow> 0 \<le> doubleSum xs"
  by (simp add: doubleSum_def foldl_dadd_nonneg)

lemma trigraphLoop_records_nothing: "trigraphLoop sid events = []"
  by (induction sid events rule: trigraphLoop.induct) auto

lemma calculate_analyzer:
  "fst (snd (calculateEnhancedFraudScore ka ac now ch se ce ke cs)) =
     snd (generateTypingProfile ka (scoringSessionId ch))"
  unfolding calculateEnhancedFraudScore_def Let_def by simp

lemma calculate_chunks:
  "snd (snd (calculateEnhancedFraudScore ka ac now ch se ce ke cs)) =
     snd (detectSuspiciousTiming ch se)"
  unfolding calculateEnhancedFraudScore_def analyzeBehavioralPatterns_def Let_def by simp

lemma calculate_sessionId:
  "fs_sessionId (fst (calculateEnhancedFraudScore ka ac now ch se ce ke cs)) =
     scoringSessionId (snd (detectSuspiciousTiming ch se))"
  unfolding calculateEnhancedFraudScore_def analyzeBehavioralPatterns_def Let_def by simp

lemma calculate_score:
  "score (fst (calculateEnhancedFraudScore ka ac now ch se ce ke cs)) =
     max 0 (min 100 (fst (crossModalFusion
        (detectTypingAnomalies (snd (generateTypingProfile ka (scoringSessionId ch)))
           (scoringSessionId ch))
        (detectCodeAnomalies (ac cs))
        (fst (analyzeBehavioralPatterns ch se ce now)))))"
  by (simp add: calculateEnhancedFraudScore_def Let_def)

lemma calculate_level:
  "level (fst (calculateEnhancedFraudScore ka ac now ch se ce ke cs)) =
     (if score (fst (calculateEnhancedFraudScore ka ac now ch se ce ke cs)) \<ge> 70 then High
      else if score (fst (calculateEnhancedFraudScore ka ac now ch se ce ke cs)) \<ge> 40 then Medium
      else Low)"
  by (auto simp add: calculateEnhancedFraudScore_def Let_def)

lemma analyzeFraud_signals:
  "fraudSignals (analyzeFraud st sid now) =
     (fraudSignals st)(sid \<mapsto> orEmpty (fraudSignals st sid) @
        [fst (calculateEnhancedFraudScore (keystrokeAnalyzer st) (codeStylometryAnalyzer st) now
                (orEmpty (transcriptChunks st sid))
                (orEmpty (screenEvents st sid))
                (orEmpty (compileEvents st sid))
                (orEmpty (keystrokeEvents st sid))
                (case codeSamples st sid of None \<Rightarrow> [] | Some c \<Rightarrow> c))])"
  by (simp add: analyzeFraud_def Let_def)

lemma analyzeFraud_chunks:
  "transcriptChunks (analyzeFraud st sid now) =
     (case transcriptChunks st sid of
        None \<Rightarrow> transcriptChunks st
      | Some cs \<Rightarrow> (transcriptChunks st)
          (sid \<mapsto> snd (detectSuspiciousTiming cs (orEmpty (screenEvents st sid)))))"
  unfolding analyzeFraud_def Let_def
  by (cases "transcriptChunks st sid") (simp_all add: calculate_chunks orEmpty_def)

lemma analyzeFraud_analyzer:
  "keystrokeAnalyzer (analyzeFraud st sid now) =
     snd (generateTypingProfile (keystrokeAnalyzer st)
            (scoringSessionId (orEmpty (transcriptChunks st sid))))"
  unfolding analyzeFraud_def Let_def by (simp add: calculate_analyzer)

lemma ingestTranscript_chunks:
  "transcriptChunks (snd (ingestTranscript st d u now)) =
     (transcriptChunks st)(tc_sessionId d \<mapsto>
        snd (detectSuspiciousTiming
               (orEmpty (transcriptChunks st (tc_sessionId d)) @ [d\<lparr>tc_id := Some u\<rparr>])
               (orEmpty (screenEvents st (tc_sessionId d)))))"
  by (simp add: ingestTranscript_def Let_def analyzeFraud_chunks orEmpty_def)

lemma detectTypingAnomalies_suspicious:
  "isSuspicious (detectTypingAnomalies ka sid)
     = (confidence (detectTypingAnomalies ka sid) > toDouble (3 / 10))"
  by (cases "ka_typingProfiles ka sid")
     (simp_all add: detectTypingAnomalies_def Let_def double_tenths)

lemma detectCodeAnomalies_suspicious:
  "isSuspicious (detectCodeAnomalies features)
     = (confidence (detectCodeAnomalies features) > toDouble (3 / 10))"
  by (simp add: detectCodeAnomalies_def Let_def double_tenths)

text \<open>
  The stylometry verdict at the threshold: \<open>0.2 + 0.1\<close> is the double above \<open>0.3\<close>, so
  the two rules together make the sample suspicious.
\<close>

lemma cleanCamel_suspicious:
  "confidence (detectCodeAnomalies cleanCamelFeatures) = 1351079888211149 / 4503599627370496
   \<and> isSuspicious (detectCodeAnomalies cleanCamelFeatures)"
  by (simp add: detectCodeAnomalies_def cleanCamelFeatures_def ruleAiProbability_def
        ruleChatGptPatterns_def ruleCleanCode_def ruleSimpleCode_def ruleCamelCase_def
        double_eval)

lemma getLatestScore_appended:
  "fraudSignals st sid = Some (xs @ [snap]) \<Longrightarrow> getLatestScore st sid now = snap"
  by (cases xs) (simp_all add: getLatestScore_def orEmpty_def)

section \<open>Properties\<close>

text \<open>
  C1. Rescoring after an ingestion on session \<open>s\<close> should analyse \<open>s\<close>'s own keystroke
  log and label the snapshot with \<open>s\<close>, also when \<open>s\<close> has no transcript chunk yet.
  After one keystroke is ingested for \<open>s1\<close> on a fresh service, the snapshot
  appended to the history of \<open>s1\<close> is labelled \<open>unknown\<close>, and the analyzer holds the
  keystroke under \<open>s1\<close> but has generated no profile for \<open>s1\<close>: the scoring takes its
  session identifier from the first transcript chunk and falls back to \<open>unknown\<close>.
\<close>

theorem rescoring_uses_unknown_session:
  "fs_sessionId (getLatestScore (snd (ingestKeystrokeEvent freshService (keyEvent ''s1'' 0 ''a'' Down) 5)) ''s1'' 6)
     = ''unknown''
   \<and> ka_keystrokeEvents (keystrokeAnalyzer (snd (ingestKeystrokeEvent freshService (keyEvent ''s1'' 0 ''a'' Down) 5))) ''s1''
     = Some [keyEvent ''s1'' 0 ''a'' Down]
   \<and> ka_typingProfiles (keystrokeAnalyzer (snd (ingestKeystrokeEvent freshService (keyEvent ''s1'' 0 ''a'' Down) 5))) ''s1''
     = None"
proof -
  let ?st = "snd (ingestKeystrokeEvent freshService (keyEvent ''s1'' 0 ''a'' Down) 5)"
  have sig: "\<exists>snap. fraudSignals ?st ''s1'' = Some ([] @ [snap]) \<and> fs_sessionId snap = ''unknown''"
    by (simp add: ingestKeystrokeEvent_def Let_def analyzeFraud_signals calculate_sessionId
          freshService_def newFraudDetectionService_def orEmpty_def keyEvent_def
          detectSuspiciousTiming_def scoringSessionId_def)
  then obtain snap where s: "fraudSignals ?st ''s1'' = Some ([] @ [snap])" "fs_sessionId snap = ''unknown''"
    by blast
  have a: "fs_sessionId (getLatestScore ?st ''s1'' 6) = ''unknown''"
    using getLatestScore_appended [OF s(1)] s(2) by simp
  have ka: "keystrokeAnalyzer ?st =
      recordKeystroke newKeystrokeAnalyzer ''s1'' (keyEvent ''s1'' 0 ''a'' Down)"
    by (simp add: ingestKeystrokeEvent_def Let_def analyzeFraud_analyzer
          freshService_def newFraudDetectionService_def orEmpty_def keyEvent_def
          scoringSessionId_def generateTypingProfile_def recordKeystroke_def
          analyzeDigraphs_def analyzeTrigraphs_def newKeystrokeAnalyzer_def)
  have b: "ka_keystrokeEvents (keystrokeAnalyzer ?st) ''s1'' = Some [keyEvent ''s1'' 0 ''a'' Down]"
    unfolding ka
    by (simp add: recordKeystroke_def analyzeDigraphs_def analyzeTrigraphs_def
          newKeystrokeAnalyzer_def orEmpty_def)
  have c: "ka_typingProfiles (keystrokeAnalyzer ?st) ''s1'' = None"
    unfolding ka
    by (simp add: recordKeystroke_def analyzeDigraphs_def analyzeTrigraphs_def
          newKeystrokeAnalyzer_def orEmpty_def)
  show ?thesis using a b c by simp
qed






text \<open>
  C3. The score of every computed \<open>FraudScore\<close> lies in [0, 100], and its level is
  high exactly when the score is at least 70, medium exactly when it is at least 40
  and below 70, low exactly when it is below 40.
\<close>

theorem fraud_score_range_and_level:
  "0 \<le> score (fst (calculateEnhancedFraudScore ka ac now ch se ce ke cs))
   \<and> score (fst (calculateEnhancedFraudScore ka ac now ch se ce ke cs)) \<le> 100
   \<and> (level (fst (calculateEnhancedFraudScore ka ac now ch se ce ke cs)) = High
        \<longleftrightarrow> score (fst (calculateEnhancedFraudScore ka ac now ch se ce ke cs)) \<ge> 70)
   \<and> (level (fst (calculateEnhancedFraudScore ka ac now ch se ce ke cs)) = Medium
        \<longleftrightarrow> 40 \<le> score (fst (calculateEnhancedFraudScore ka ac now ch se ce ke cs))
            \<and> score (fst (calculateEnhancedFraudScore ka ac now ch se ce ke cs)) < 70)
   \<and> (level (fst (calculateEnhancedFraudScore ka ac now ch se ce ke cs)) = Low
        \<longleftrightarrow> score (fst (calculateEnhancedFraudScore ka ac now ch se ce ke cs)) < 40)"
proof -
  have range: "0 \<le> score (fst (calculateEnhancedFraudScore ka ac now ch se ce ke cs))
      \<and> score (fst (calculateEnhancedFraudScore ka ac now ch se ce ke cs)) \<le> 100"
    unfolding calculate_score by simp
  show ?thesis
    using range unfolding calculate_level by auto
qed

text \<open>
  C4. The trigraph detector is meant to record a trigraph for three consecutive keys
  whose release-to-press transitions are both within 10 to 2000 ms. On the log
  release \<open>a\<close> (0 ms), press \<open>b\<close> (100 ms), release \<open>b\<close> (150 ms), press \<open>c\<close> (250 ms),
  the pattern the source comment describes, with both latencies 100 ms, the code
  stores an empty trigraph list: its condition asks one event to be a press and a
  release at once.
\<close>

theorem trigraph_never_recorded:
  "ka_trigraphs (recordKeystrokes newKeystrokeAnalyzer ''s1''
       [keyEvent ''s1'' 0 ''a'' Up, keyEvent ''s1'' 100 ''b'' Down,
        keyEvent ''s1'' 150 ''b'' Up, keyEvent ''s1'' 250 ''c'' Down]) ''s1'' = Some []"
  by (simp add: recordKeystroke_def analyzeDigraphs_def analyzeTrigraphs_def
        newKeystrokeAnalyzer_def orEmpty_def trigraphLoop_records_nothing)

text \<open>
  C5. The stored digraphs should be what one recomputation from the raw log gives.
  After release \<open>a\<close> (0 ms), press \<open>b\<close> (100 ms), release \<open>b\<close> (150 ms) the raw log
  holds one in-band release-to-press pair, yet the store holds its digraph twice:
  every append rescans the whole log and pushes onto the list already stored.
\<close>

theorem recordKeystroke_duplicates_digraphs:
  "ka_digraphs (recordKeystrokes newKeystrokeAnalyzer ''s1''
       [keyEvent ''s1'' 0 ''a'' Up, keyEvent ''s1'' 100 ''b'' Down,
        keyEvent ''s1'' 150 ''b'' Up]) ''s1''
   = Some [\<lparr>dg_sessionId = ''s1'', dg_key1 = ''a'', dg_key2 = ''b'', dg_latency = 100,
             dg_timestamp = 100\<rparr>,
           \<lparr>dg_sessionId = ''s1'', dg_key1 = ''a'', dg_key2 = ''b'', dg_latency = 100,
             dg_timestamp = 100\<rparr>]
   \<and> digraphLoop ''s1''
       [keyEvent ''s1'' 0 ''a'' Up, keyEvent ''s1'' 100 ''b'' Down,
        keyEvent ''s1'' 150 ''b'' Up]
   = [\<lparr>dg_sessionId = ''s1'', dg_key1 = ''a'', dg_key2 = ''b'', dg_latency = 100,
        dg_timestamp = 100\<rparr>]"
  by (simp add: recordKeystroke_def analyzeDigraphs_def analyzeTrigraphs_def
        newKeystrokeAnalyzer_def keyEvent_def orEmpty_def double_eval)

text \<open>
  C6. The stored logs should keep arrival order whatever scoring does. Ingesting a
  chunk that starts at 100 ms and then one that starts at 0 ms leaves the stored
  transcript log with the second chunk first: \<open>detectSuspiciousTiming\<close> sorts the
  stored array itself by \<open>startMs\<close>.
\<close>

theorem scoring_reorders_transcript_log:
  "transcriptChunks
     (snd (ingestTranscript
        (snd (ingestTranscript freshService (chunkOf ''s1'' 1 ''first'' 100 200) ''u1'' 300))
        (chunkOf ''s1'' 2 ''second'' 0 50) ''u2'' 400)) ''s1''
   = Some [(chunkOf ''s1'' 2 ''second'' 0 50)\<lparr>tc_id := Some ''u2''\<rparr>,
           (chunkOf ''s1'' 1 ''first'' 100 200)\<lparr>tc_id := Some ''u1''\<rparr>]"
  by (simp add: ingestTranscript_chunks freshService_def
        newFraudDetectionService_def orEmpty_def chunkOf_def detectSuspiciousTiming_def)

lemmas profile_eval = generateTypingProfile_def recordKeystroke_def analyzeDigraphs_def
  analyzeTrigraphs_def newKeystrokeAnalyzer_def keyEvent_def orEmpty_def
  trigraphLoop_records_nothing getSessionDuration_def keyPressTimes_def
  calculateKeyHoldDurations_def groupAverages_def groupDigraphsByKeyPair_def
  groupTrigraphsByKeyTriple_def calculatePauseDistribution_def
  calculateInterKeystrokeVariance_def populationVariance_def doubleSum_def Let_def

lemma typedAnalyzer_profile:
  "ka_typingProfiles typedAnalyzer ''s1'' =
     Some \<lparr>tp_sessionId = ''s1'', averageSpeed = 600,
           digraphLatencies = [(''a-b'', 40), (''b-c'', 50)], trigraphLatencies = [],
           keyHoldDurations = [(''a'', 80), (''b'', 80), (''c'', 50)],
           pauseDistribution = [120, 130], variance = 25\<rparr>"
  by (simp add: typedAnalyzer_def typedEvents_def profile_eval double_eval)

lemma slowAnalyzer_profile:
  "ka_typingProfiles slowAnalyzer ''s1'' =
     Some \<lparr>tp_sessionId = ''s1'', averageSpeed = 15, digraphLatencies = [],
           trigraphLatencies = [], keyHoldDurations = [],
           pauseDistribution = [1000, 3000], variance = 1000000\<rparr>"
  by (simp add: slowAnalyzer_def slowEvents_def profile_eval double_eval)

lemma pausingAnalyzer_profile:
  "ka_typingProfiles pausingAnalyzer ''s1'' =
     Some \<lparr>tp_sessionId = ''s1'', averageSpeed = 32,
           digraphLatencies = [(''a-b'', 50), (''b-c'', 950)], trigraphLatencies = [],
           keyHoldDurations = [(''a'', 50), (''b'', 50), (''c'', 50)],
           pauseDistribution = [1000, 6400], variance = 7740000\<rparr>"
  by (simp add: pausingAnalyzer_def pausingEvents_def profile_eval double_eval)

text \<open>
  C7. For a session with a generated typing profile, the confidence returned by
  \<open>detectTypingAnomalies\<close> is the sum, clamped to [0, 1], of 0.3 if the variance is
  below 50, 0.2 if the average speed is above 200, 0.1 if it is below 20, 0.2 if more
  than 30% of the pauses exceed 5000 ms, and 0.2 if the variance across the
  per-key-pair mean digraph latencies is below 100; and the verdict is suspicious
  exactly when the confidence exceeds 0.3. The sum, the fraction and the variance are
  the code's doubles: the contributions that fire are added in this order, each
  addition rounded; the variance is the mean of the squared deviations from the
  mean, and counts as 0 with fewer than two key pairs.
\<close>

theorem detectTypingAnomalies_confidence:
  assumes "ka_typingProfiles ka sid = Some p"
  shows "confidence (detectTypingAnomalies ka sid) =
      min 1 (max 0 (doubleSum
        ((if variance p < 50 then [toDouble (3 / 10)] else [])
         @ (if averageSpeed p > 200 then [toDouble (2 / 10)] else [])
         @ (if averageSpeed p < 20 then [toDouble (1 / 10)] else [])
         @ (if pauseDistribution p \<noteq> []
               \<and> ddiv (real (length (filter (\<lambda>pause. pause > 5000) (pauseDistribution p))))
                       (real (length (pauseDistribution p))) > toDouble (3 / 10)
            then [toDouble (2 / 10)] else [])
         @ (if length (digraphLatencies p) < 2
               \<or> ddiv (foldl (\<lambda>sum lat. dadd sum
                            (dmul (dsub lat (ddiv (doubleSum (map snd (digraphLatencies p)))
                                                  (real (length (digraphLatencies p)))))
                                  (dsub lat (ddiv (doubleSum (map snd (digraphLatencies p)))
                                                  (real (length (digraphLatencies p)))))))
                          0 (map snd (digraphLatencies p)))
                       (real (length (digraphLatencies p))) < 100
            then [toDouble (2 / 10)] else []))))
    \<and> isSuspicious (detectTypingAnomalies ka sid)
        = (confidence (detectTypingAnomalies ka sid) > toDouble (3 / 10))"
proof -
  let ?cs = "(if variance p < 50 then [toDouble (3 / 10)] else [])
         @ (if averageSpeed p > 200 then [toDouble (2 / 10)] else [])
         @ (if averageSpeed p < 20 then [toDouble (1 / 10)] else [])
         @ (if pauseDistribution p \<noteq> []
               \<and> ddiv (real (length (filter (\<lambda>pause. pause > 5000) (pauseDistribution p))))
                       (real (length (pauseDistribution p))) > toDouble (3 / 10)
            then [toDouble (2 / 10)] else [])
         @ (if length (digraphLatencies p) < 2
               \<or> ddiv (foldl (\<lambda>sum lat. dadd sum
                            (dmul (dsub lat (ddiv (doubleSum (map snd (digraphLatencies p)))
                                                  (real (length (digraphLatencies p)))))
                                  (dsub lat (ddiv (doubleSum (map snd (digraphLatencies p)))
                                                  (real (length (digraphLatencies p)))))))
                          0 (map snd (digraphLatencies p)))
                       (real (length (digraphLatencies p))) < 100
            then [toDouble (2 / 10)] else [])"
  have fifth: "(calculateDigraphVariance (digraphLatencies p) < 100) =
      (length (digraphLatencies p) < 2
       \<or> ddiv (foldl (\<lambda>sum lat. dadd sum
                    (dmul (dsub lat (ddiv (doubleSum (map snd (digraphLatencies p)))
                                          (real (length (digraphLatencies p)))))
                          (dsub lat (ddiv (doubleSum (map snd (digraphLatencies p)))
                                          (real (length (digraphLatencies p)))))))
                  0 (map snd (digraphLatencies p)))
               (real (length (digraphLatencies p))) < 100)"
    by (simp add: calculateDigraphVariance_def populationVariance_def Let_def)
  have acc: "snd (ruleDigraphConsistency p (ruleLongPauses p (ruleTypingSpeed p
                (ruleUniformTiming p ([], 0))))) = doubleSum ?cs"
    unfolding ruleDigraphConsistency_def fifth
    by (simp add: ruleUniformTiming_def ruleTypingSpeed_def ruleLongPauses_def
          doubleSum_def Let_def)
  have "\<forall>x \<in> set ?cs. 0 \<le> x"
    by (auto simp add: toDouble_nonneg)
  then have nonneg: "0 \<le> doubleSum ?cs"
    by (rule doubleSum_nonneg)
  have conf: "confidence (detectTypingAnomalies ka sid) = min (doubleSum ?cs) 1"
    using assms acc by (simp add: detectTypingAnomalies_def Let_def)
  have susp: "isSuspicious (detectTypingAnomalies ka sid) = (doubleSum ?cs > toDouble (3 / 10))"
    using assms acc by (simp add: detectTypingAnomalies_def Let_def)
  have lt: "toDouble (3 / 10) < 1"
    by (simp add: double_tenths)
  show ?thesis
    unfolding conf susp using nonneg lt by (auto simp add: min_def max_def)
qed

theorem detectTypingAnomalies_confidence_witness:
  "ka_typingProfiles typedAnalyzer ''s1'' \<noteq> None
   \<and> confidence (detectTypingAnomalies typedAnalyzer ''s1'') = 3152519739159347 / 4503599627370496
   \<and> isSuspicious (detectTypingAnomalies typedAnalyzer ''s1'')
   \<and> ka_typingProfiles slowAnalyzer ''s1'' \<noteq> None
   \<and> confidence (detectTypingAnomalies slowAnalyzer ''s1'') = 1351079888211149 / 4503599627370496
   \<and> confidence (detectTypingAnomalies slowAnalyzer ''s1'') > toDouble (3 / 10)
   \<and> isSuspicious (detectTypingAnomalies slowAnalyzer ''s1'')
   \<and> ka_typingProfiles pausingAnalyzer ''s1'' \<noteq> None
   \<and> confidence (detectTypingAnomalies pausingAnalyzer ''s1'') = 3602879701896397 / 18014398509481984
   \<and> \<not> isSuspicious (detectTypingAnomalies pausingAnalyzer ''s1'')"
proof -
  have typed: "confidence (detectTypingAnomalies typedAnalyzer ''s1'') = 3152519739159347 / 4503599627370496
      \<and> isSuspicious (detectTypingAnomalies typedAnalyzer ''s1'')"
    using detectTypingAnomalies_confidence [OF typedAnalyzer_profile]
    by (simp add: doubleSum_def double_tenths) (simp add: double_eval)
  have slow: "confidence (detectTypingAnomalies slowAnalyzer ''s1'') = 1351079888211149 / 4503599627370496
      \<and> isSuspicious (detectTypingAnomalies slowAnalyzer ''s1'')"
    using detectTypingAnomalies_confidence [OF slowAnalyzer_profile]
    by (simp add: doubleSum_def double_tenths) (simp add: double_eval)
  have pausing: "confidence (detectTypingAnomalies pausingAnalyzer ''s1'') = 3602879701896397 / 18014398509481984
      \<and> \<not> isSuspicious (detectTypingAnomalies pausingAnalyzer ''s1'')"
    using detectTypingAnomalies_confidence [OF pausingAnalyzer_profile]
    by (simp add: doubleSum_def double_tenths) (simp add: double_eval)
  show ?thesis
    using typed slow pausing
    by (simp add: typedAnalyzer_profile slowAnalyzer_profile pausingAnalyzer_profile double_tenths)
qed

text \<open>
  C8. Each of the four ingestion operations, on any service state and for any session
  identifier (started or not, cleared or not), reports success and leaves the score
  history of every other session as it was, with exactly one snapshot appended to the
  history of the event's session; \<open>getLatestScore\<close> on that session then returns this
  snapshot.
\<close>

theorem ingestion_appends_snapshot:
  "fst (ingestTranscript st tc u now) = True
   \<and> (\<exists>snap. fraudSignals (snd (ingestTranscript st tc u now)) =
         (fraudSignals st)(tc_sessionId tc \<mapsto> orEmpty (fraudSignals st (tc_sessionId tc)) @ [snap])
       \<and> getLatestScore (snd (ingestTranscript st tc u now)) (tc_sessionId tc) later = snap)
   \<and> fst (ingestScreenEvent st sev u now) = True
   \<and> (\<exists>snap. fraudSignals (snd (ingestScreenEvent st sev u now)) =
         (fraudSignals st)(se_sessionId sev \<mapsto> orEmpty (fraudSignals st (se_sessionId sev)) @ [snap])
       \<and> getLatestScore (snd (ingestScreenEvent st sev u now)) (se_sessionId sev) later = snap)
   \<and> fst (ingestCompileEvent st cev u now) = True
   \<and> (\<exists>snap. fraudSignals (snd (ingestCompileEvent st cev u now)) =
         (fraudSignals st)(ce_sessionId cev \<mapsto> orEmpty (fraudSignals st (ce_sessionId cev)) @ [snap])
       \<and> getLatestScore (snd (ingestCompileEvent st cev u now)) (ce_sessionId cev) later = snap)
   \<and> fst (ingestKeystrokeEvent st kev now) = True
   \<and> (\<exists>snap. fraudSignals (snd (ingestKeystrokeEvent st kev now)) =
         (fraudSignals st)(ke_sessionId kev \<mapsto> orEmpty (fraudSignals st (ke_sessionId kev)) @ [snap])
       \<and> getLatestScore (snd (ingestKeystrokeEvent st kev now)) (ke_sessionId kev) later = snap)"
  by (simp add: ingestTranscript_def ingestScreenEvent_def ingestCompileEvent_def
        ingestKeystrokeEvent_def Let_def analyzeFraud_signals getLatestScore_appended)

lemma scoredService_history: "orEmpty (fraudSignals scoredService ''s1'') \<noteq> []"
  by (simp add: scoredService_def ingestKeystrokeEvent_def Let_def analyzeFraud_signals
        orEmpty_def keyEvent_def)

lemma freshService_history: "orEmpty (fraudSignals freshService ''s1'') = []"
  by (simp add: freshService_def newFraudDetectionService_def orEmpty_def)

text \<open>
  C9, as amended. Two calls of \<open>getLatestScore\<close> on the same state return the same
  session identifier, score, level and reasons. With a non-empty score history both
  return the snapshot appended last, so the two results are equal, timestamp
  included. With an empty history each returns the default: the session identifier
  asked for, score 0, level low, no reasons, and the clock reading of its own call as
  the timestamp.
\<close>

theorem getLatestScore_repeat:
  "fs_sessionId (getLatestScore st sid t1) = fs_sessionId (getLatestScore st sid t2)
   \<and> score (getLatestScore st sid t1) = score (getLatestScore st sid t2)
   \<and> level (getLatestScore st sid t1) = level (getLatestScore st sid t2)
   \<and> reasons (getLatestScore st sid t1) = reasons (getLatestScore st sid t2)
   \<and> (orEmpty (fraudSignals st sid) \<noteq> [] \<longrightarrow>
        getLatestScore st sid t1 = last (orEmpty (fraudSignals st sid))
        \<and> getLatestScore st sid t2 = last (orEmpty (fraudSignals st sid))
        \<and> getLatestScore st sid t1 = getLatestScore st sid t2)
   \<and> (orEmpty (fraudSignals st sid) = [] \<longrightarrow>
        getLatestScore st sid t1 =
          \<lparr>fs_sessionId = sid, score = 0, level = Low, reasons = [], fs_at = t1\<rparr>
        \<and> getLatestScore st sid t2 =
          \<lparr>fs_sessionId = sid, score = 0, level = Low, reasons = [], fs_at = t2\<rparr>
        \<and> fs_at (getLatestScore st sid t1) = t1 \<and> fs_at (getLatestScore st sid t2) = t2)"
  by (simp add: getLatestScore_def split: list.splits)

theorem getLatestScore_repeat_witness:
  "orEmpty (fraudSignals scoredService ''s1'') \<noteq> []
   \<and> getLatestScore scoredService ''s1'' 1000 = last (orEmpty (fraudSignals scoredService ''s1''))
   \<and> getLatestScore scoredService ''s1'' 1000 = getLatestScore scoredService ''s1'' 1001
   \<and> orEmpty (fraudSignals freshService ''s1'') = []
   \<and> getLatestScore freshService ''s1'' 1000 =
       \<lparr>fs_sessionId = ''s1'', score = 0, level = Low, reasons = [], fs_at = 1000\<rparr>
   \<and> getLatestScore freshService ''s1'' 1001 =
       \<lparr>fs_sessionId = ''s1'', score = 0, level = Low, reasons = [], fs_at = 1001\<rparr>"
  using getLatestScore_repeat [of scoredService "''s1''" 1000 1001]
        getLatestScore_repeat [of freshService "''s1''" 1000 1001]
  by (simp add: scoredService_history freshService_history)

text \<open>
  On the empty history of a fresh service, two calls one millisecond apart return
  different values.
\<close>

theorem getLatestScore_default_timestamp_differs:
  "getLatestScore freshService ''s1'' 1000 \<noteq> getLatestScore freshService ''s1'' 1001"
  by (simp add: getLatestScore_def freshService_def newFraudDetectionService_def orEmpty_def)

lemma endedService_session:
  "sessions endedService ''s1'' =
     Some \<lparr>sd_id = ''s1'', candidateId = ''cand'', companyId = ''co'', role = None,
           status = Ended, startedAt = Some 10, endedAt = Some 20, consent = allConsent\<rparr>"
  by (simp add: endedService_def endInterview_def startInterview_def)

lemma freshService_session: "sessions freshService ''s1'' = None"
  by (simp add: freshService_def newFraudDetectionService_def)

text \<open>
  C10. On a known session \<open>endInterview\<close> succeeds whatever the status, sets the status
  to ended and the end time to the clock reading (overwriting an earlier end time),
  keeps the identifier, candidate, company, role, consent and start time, and changes
  nothing else in the service; on an unknown identifier it throws and the service is
  unchanged.
\<close>

theorem endInterview_frame:
  "(\<forall>s. sessions st sid = Some s \<longrightarrow>
      fst (endInterview st sid now) = Inr True
      \<and> sessions (snd (endInterview st sid now)) =
          (sessions st)(sid \<mapsto> s\<lparr>status := Ended, endedAt := Some now\<rparr>)
      \<and> status (the (sessions (snd (endInterview st sid now)) sid)) = Ended
      \<and> endedAt (the (sessions (snd (endInterview st sid now)) sid)) = Some now
      \<and> sd_id (the (sessions (snd (endInterview st sid now)) sid)) = sd_id s
      \<and> candidateId (the (sessions (snd (endInterview st sid now)) sid)) = candidateId s
      \<and> companyId (the (sessions (snd (endInterview st sid now)) sid)) = companyId s
      \<and> role (the (sessions (snd (endInterview st sid now)) sid)) = role s
      \<and> consent (the (sessions (snd (endInterview st sid now)) sid)) = consent s
      \<and> startedAt (the (sessions (snd (endInterview st sid now)) sid)) = startedAt s
      \<and> (snd (endInterview st sid now))\<lparr>sessions := sessions st\<rparr> = st)
   \<and> (sessions st sid = None \<longrightarrow> endInterview st sid now = (Inl SessionNotFound, st))"
  by (simp add: endInterview_def)

theorem endInterview_frame_witness:
  "status (the (sessions endedService ''s1'')) = Ended
   \<and> endedAt (the (sessions endedService ''s1'')) = Some 20
   \<and> fst (endInterview endedService ''s1'' 30) = Inr True
   \<and> sessions (snd (endInterview endedService ''s1'' 30)) ''s1'' =
       Some \<lparr>sd_id = ''s1'', candidateId = ''cand'', companyId = ''co'', role = None,
             status = Ended, startedAt = Some 10, endedAt = Some 30, consent = allConsent\<rparr>
   \<and> sessions freshService ''s1'' = None
   \<and> endInterview freshService ''s1'' 30 = (Inl SessionNotFound, freshService)"
  using endInterview_frame [of endedService "''s1''" 30]
        endInterview_frame [of freshService "''s1''" 30]
  by (simp add: endedService_session freshService_session)

end
